theory Spec2Isabelle
  imports Main
begin

section \<open>Release-candidate naming: \<open>getRcGheInfo\<close>\<close>

text \<open>
  The data the naming resolver reads. A project carries its hosting coordinates and a
  versioning strategy; a release as the hosting provider reports it carries (among
  others) its tag name and the branch or commit it targets.
\<close>

datatype versioningStrategy = semver | calver

record Project =
  github_org :: string
  github_repo :: string
  project_name :: string
  versioningStrategy :: versioningStrategy

record GhGetReleaseResponse =
  tag_name :: string
  target_commitish :: string
  prerelease :: bool

text \<open>The keys of \<open>SEMVER_PARTS\<close>: the component a semver bump increments.\<close>

datatype SEMVER_PARTS = bump_major | bump_minor | bump_patch

record semver_tag_parts =
  major :: nat
  minor :: nat
  patch :: nat

record rc_ghe_info =
  rcBranch :: string
  rcReleaseTag :: string
  releaseName :: string

text \<open>
  A number inside a template literal is rendered in decimal. The tag components and the
  commit counts of this program are non-negative integers far below the range where
  JavaScript switches to exponent notation, so they are natural numbers here;
  \<open>digit_char\<close> is read only at \<open>d < 10\<close>.
\<close>

definition digit_char :: "nat \<Rightarrow> char" where
  "digit_char d = ''0123456789'' ! d"

fun string_of_nat :: "nat \<Rightarrow> string" where
  "string_of_nat n =
     (if n < 10 then [digit_char n]
      else string_of_nat (n div 10) @ [digit_char (n mod 10)])"

declare string_of_nat.simps [simp del]

text \<open>
  \<open>getRcGheInfo\<close>. The two helpers it imports, \<open>getSemverTagParts\<close> and
  \<open>getBumpedSemverTagParts\<close>, are parameters: the first may throw on a tag it cannot
  parse, the second returns the bumped parts. The default of \<open>injectedDate\<close> is the
  current date formatted as \<open>yyyy.MM.dd\<close>; the formatted clock reading is the parameter
  \<open>today\<close>.
\<close>

definition getRcGheInfo ::
  "(string \<Rightarrow> 'e + semver_tag_parts) \<Rightarrow>
   (semver_tag_parts \<Rightarrow> SEMVER_PARTS \<Rightarrow> semver_tag_parts) \<Rightarrow>
   string \<Rightarrow>
   Project \<Rightarrow> GhGetReleaseResponse option \<Rightarrow> SEMVER_PARTS \<Rightarrow> string option \<Rightarrow>
   'e + rc_ghe_info" where
  "getRcGheInfo getSemverTagParts getBumpedSemverTagParts today
       project latestRelease semverBumpLevel injected =
     (let injectedDate = (case injected of None \<Rightarrow> today | Some d \<Rightarrow> d) in
      if versioningStrategy project = calver then
        Inr \<lparr> rcBranch = ''rc/'' @ injectedDate,
              rcReleaseTag = ''rc-'' @ injectedDate @ ''_0'',
              releaseName = ''Version '' @ injectedDate \<rparr>
      else
        (case latestRelease of
           None \<Rightarrow>
             Inr \<lparr> rcBranch = ''rc/0.0.1'',
                   rcReleaseTag = ''rc-0.0.1'',
                   releaseName = ''Version 0.0.1'' \<rparr>
         | Some latest \<Rightarrow>
             (case getSemverTagParts (tag_name latest) of
                Inl err \<Rightarrow> Inl err
              | Inr tagParts \<Rightarrow>
                  (let bumpedTagParts = getBumpedSemverTagParts tagParts semverBumpLevel;
                       bumpedTag = string_of_nat (major bumpedTagParts) @ ''.''
                                 @ string_of_nat (minor bumpedTagParts) @ ''.''
                                 @ string_of_nat (patch bumpedTagParts)
                   in Inr \<lparr> rcBranch = ''rc/'' @ bumpedTag,
                            rcReleaseTag = ''rc-'' @ bumpedTag,
                            releaseName = ''Version '' @ bumpedTag \<rparr>))))"

section \<open>The Create-RC orchestrator: \<open>createGheRc\<close>\<close>

text \<open>
  What a rejected facade call throws. The \<open>catch\<close> block of \<open>createGheRc\<close> reads
  \<open>error.body.message\<close> of the caught value and nothing else, so a thrown value is
  modelled by what those two property reads see: the value itself may be \<open>null\<close> or
  \<open>undefined\<close> (\<open>NullishError\<close>); otherwise it has its own \<open>message\<close> (which
  the \<open>catch\<close> block never reads) and a \<open>body\<close> property, which is missing
  (\<open>BodyUndefined\<close>), \<open>null\<close> (\<open>BodyNull\<close>) or some other value, whose \<open>message\<close> property is a string or not (\<open>BodyValue\<close>).
\<close>

datatype js_body = BodyUndefined | BodyNull | BodyValue "string option"

datatype js_error = NullishError | JsError (error_message: string) (error_body: js_body)

text \<open>
  How a run of the orchestrator can reject: with the value a facade call (or the
  success callback) threw, with the \<open>ReleaseManagerAsAServiceError\<close> the orchestrator
  constructs, or with the \<open>TypeError\<close> of reading a property of \<open>undefined\<close> or \<open>null\<close>.
\<close>

datatype thrown =
    Rethrown js_error
  | ReleaseManagerAsAServiceError string
  | TypeError

record GhCommit =
  commit_sha :: string
  commit_html_url :: string
  commit_message :: string

record GhCreateReferenceResponse =
  ref :: string

record GhComparison =
  comparison_html_url :: string
  ahead_by :: nat

record GhCreateReleaseResponse =
  release_name :: string
  release_html_url :: string
  release_tag_name :: string

datatype step_icon = success | failure

record ResponseStep =
  message :: string
  secondaryMessage :: "string option"
  link :: "string option"
  icon :: "step_icon option"

record success_payload =
  gitHubReleaseUrl :: string
  gitHubReleaseName :: string
  comparisonUrl :: string
  previousTag :: "string option"
  createdTag :: string

text \<open>
  The facade \<open>RMaaSApiClient\<close>. Every method is one remote round trip: it reads and
  changes the remote repository \<open>'w\<close> and either resolves with a response or rejects
  with a thrown value.
\<close>

record 'w RMaaSApiClient =
  getLatestCommit :: "string \<Rightarrow> 'w \<Rightarrow> (js_error + GhCommit) \<times> 'w"
  createRef :: "string \<Rightarrow> string \<Rightarrow> 'w \<Rightarrow> (js_error + GhCreateReferenceResponse) \<times> 'w"
  getComparison :: "string \<Rightarrow> string \<Rightarrow> 'w \<Rightarrow> (js_error + GhComparison) \<times> 'w"
  createRelease :: "rc_ghe_info \<Rightarrow> string \<Rightarrow> 'w \<Rightarrow> (js_error + GhCreateReleaseResponse) \<times> 'w"

text \<open>The calls a run performs, in order, with their arguments.\<close>

datatype remote_call =
    GetLatestCommit string
  | CreateRef string string
  | GetComparison string string
  | CreateRelease rc_ghe_info string
  | SuccessCb success_payload

abbreviation dquote :: string where
  "dquote \<equiv> [CHR 0x22]"

abbreviation newline :: string where
  "newline \<equiv> [CHR 0x0A]"

text \<open>
  The \<open>catch\<close> block around \<open>createRef\<close>: the condition
  \<open>error.body.message === 'Reference already exists'\<close> is evaluated first, and reading
  \<open>body\<close> of a nullish value or \<open>message\<close> of a nullish body throws a \<open>TypeError\<close>.
\<close>

definition createRef_catch :: "rc_ghe_info \<Rightarrow> js_error \<Rightarrow> thrown" where
  "createRef_catch nextGheInfo error =
     (case error of
        NullishError \<Rightarrow> TypeError
      | JsError _ body \<Rightarrow>
          (case body of
             BodyUndefined \<Rightarrow> TypeError
           | BodyNull \<Rightarrow> TypeError
           | BodyValue body_message \<Rightarrow>
               if body_message = Some ''Reference already exists'' then
                 ReleaseManagerAsAServiceError
                   (''Branch '' @ dquote @ rcBranch nextGheInfo @ dquote
                    @ '' already exists: .../tree/'' @ rcBranch nextGheInfo)
               else Rethrown error))"

definition releaseBody_of :: "GhComparison \<Rightarrow> GhCreateReferenceResponse \<Rightarrow> string" where
  "releaseBody_of comparison createdRef =
     ''**Compare** '' @ comparison_html_url comparison @ newline @ newline
     @ ''**Ahead by** '' @ string_of_nat (ahead_by comparison) @ '' commits'' @ newline @ newline
     @ ''**Release branch** '' @ ref createdRef @ newline @ newline
     @ ''---'' @ newline @ newline"

text \<open>
  \<open>createGheRc\<close>. The result is what the returned promise settles with (\<open>Inl\<close> a
  rejection, \<open>Inr\<close> the response steps), the calls performed, and the remote
  repository as the run leaves it. \<open>responseSteps\<close> is a local of the function: a
  rejection carries no steps.
\<close>

definition createGheRc ::
  "'w RMaaSApiClient \<Rightarrow> string \<Rightarrow> GhGetReleaseResponse option \<Rightarrow> rc_ghe_info \<Rightarrow>
   (success_payload \<Rightarrow> 'w \<Rightarrow> (js_error + unit) \<times> 'w) option \<Rightarrow> 'w \<Rightarrow>
   (thrown + ResponseStep list) \<times> remote_call list \<times> 'w" where
  "createGheRc apiClient defaultBranch latestRelease nextGheInfo successCb w0 =
     (let responseSteps0 = [];
          calls1 = [GetLatestCommit defaultBranch] in
      case getLatestCommit apiClient defaultBranch w0 of
        (Inl e, w1) \<Rightarrow> (Inl (Rethrown e), calls1, w1)
      | (Inr latestCommit, w1) \<Rightarrow>
     (let responseSteps1 = responseSteps0 @
            [\<lparr> message = ''Fetched latest commit from '' @ dquote @ defaultBranch @ dquote,
               secondaryMessage =
                 Some (''with message '' @ dquote @ commit_message latestCommit @ dquote),
               link = Some (commit_html_url latestCommit),
               icon = None \<rparr>];
          mostRecentSha = commit_sha latestCommit;
          calls2 = calls1 @ [CreateRef mostRecentSha (rcBranch nextGheInfo)] in
      case createRef apiClient mostRecentSha (rcBranch nextGheInfo) w1 of
        (Inl error, w2) \<Rightarrow> (Inl (createRef_catch nextGheInfo error), calls2, w2)
      | (Inr createdRef, w2) \<Rightarrow>
     (let responseSteps2 = responseSteps1 @
            [\<lparr> message = ''Cut Release Branch'',
               secondaryMessage = Some (''with ref '' @ dquote @ ref createdRef @ dquote),
               link = None,
               icon = None \<rparr>];
          previousReleaseBranch =
            (case latestRelease of
               Some latest \<Rightarrow> target_commitish latest
             | None \<Rightarrow> defaultBranch);
          nextReleaseBranch = rcBranch nextGheInfo;
          calls3 = calls2 @ [GetComparison previousReleaseBranch nextReleaseBranch] in
      case getComparison apiClient previousReleaseBranch nextReleaseBranch w2 of
        (Inl e, w3) \<Rightarrow> (Inl (Rethrown e), calls3, w3)
      | (Inr comparison, w3) \<Rightarrow>
     (let releaseBody = releaseBody_of comparison createdRef;
          responseSteps3 = responseSteps2 @
            [\<lparr> message = ''Fetched commit comparision'',
               secondaryMessage = Some (previousReleaseBranch @ ''...'' @ nextReleaseBranch),
               link = Some (comparison_html_url comparison),
               icon = None \<rparr>];
          calls4 = calls3 @ [CreateRelease nextGheInfo releaseBody] in
      case createRelease apiClient nextGheInfo releaseBody w3 of
        (Inl e, w4) \<Rightarrow> (Inl (Rethrown e), calls4, w4)
      | (Inr createReleaseResponse, w4) \<Rightarrow>
     (let responseSteps4 = responseSteps3 @
            [\<lparr> message = ''Created Release Candidate '' @ dquote
                 @ release_name createReleaseResponse @ dquote,
               secondaryMessage =
                 Some (''with tag '' @ dquote @ rcReleaseTag nextGheInfo @ dquote),
               link = Some (release_html_url createReleaseResponse),
               icon = None \<rparr>] in
      case successCb of
        None \<Rightarrow> (Inr responseSteps4, calls4, w4)
      | Some cb \<Rightarrow>
     (let payload =
            \<lparr> gitHubReleaseUrl = release_html_url createReleaseResponse,
              gitHubReleaseName = release_name createReleaseResponse,
              comparisonUrl = comparison_html_url comparison,
              previousTag = map_option tag_name latestRelease,
              createdTag = release_tag_name createReleaseResponse \<rparr>;
          calls5 = calls4 @ [SuccessCb payload] in
      case cb payload w4 of
        (Inl e, w5) \<Rightarrow> (Inl (Rethrown e), calls5, w5)
      | (Inr _, w5) \<Rightarrow> (Inr responseSteps4, calls5, w5)))))))"

section \<open>The Promote-RC workflow\<close>

text \<open>
  Modelled from the spec: the Promote-RC orchestrator (the component \<open>PromoteRc\<close> and
  its body; only their tests are among the sources). The spec: a latest release must
  exist and be a prerelease; "if no latest release exists, the orchestrator must not
  attempt remote calls and instead signal nothing to promote"; if the latest release is
  not a release candidate the orchestrator warns and proceeds only on the caller's
  explicit confirmation; the states are ValidatePrerelease, MarkReleaseAsFull, an
  optional MergeIntoMainline, Done; the first failing remote step aborts the run.
\<close>

datatype promote_signal =
    NothingToPromote
  | NotReleaseCandidateWarning
  | PromoteRemoteError js_error

datatype promote_call =
    MarkReleaseAsFull GhGetReleaseResponse
  | MergeIntoMainline GhGetReleaseResponse

record 'w promote_facade =
  markReleaseAsFull :: "GhGetReleaseResponse \<Rightarrow> 'w \<Rightarrow> (js_error + GhGetReleaseResponse) \<times> 'w"
  mergeIntoMainline :: "GhGetReleaseResponse \<Rightarrow> 'w \<Rightarrow> (js_error + unit) \<times> 'w"

text \<open>
  Modelled from the spec: the Promote-RC orchestrator itself, which is missing from the
  sources. \<open>confirmed\<close> is the caller's explicit confirmation for a latest release that
  is not a release candidate, \<open>merge\<close> selects the optional MergeIntoMainline step.
\<close>

definition promoteRc ::
  "'w promote_facade \<Rightarrow> GhGetReleaseResponse option \<Rightarrow> bool \<Rightarrow> bool \<Rightarrow> 'w \<Rightarrow>
   (promote_signal + GhGetReleaseResponse) \<times> promote_call list \<times> 'w" where
  "promoteRc facade latestRelease confirmed merge w0 =
     (case latestRelease of
        None \<Rightarrow> (Inl NothingToPromote, [], w0)
      | Some latest \<Rightarrow>
          if \<not> prerelease latest \<and> \<not> confirmed then (Inl NotReleaseCandidateWarning, [], w0)
          else
            (case markReleaseAsFull facade latest w0 of
               (Inl e, w1) \<Rightarrow> (Inl (PromoteRemoteError e), [MarkReleaseAsFull latest], w1)
             | (Inr promoted, w1) \<Rightarrow>
                 if \<not> merge then (Inr promoted, [MarkReleaseAsFull latest], w1)
                 else
                   (case mergeIntoMainline facade promoted w1 of
                      (Inl e, w2) \<Rightarrow>
                        (Inl (PromoteRemoteError e),
                         [MarkReleaseAsFull latest, MergeIntoMainline promoted], w2)
                    | (Inr _, w2) \<Rightarrow>
                        (Inr promoted,
                         [MarkReleaseAsFull latest, MergeIntoMainline promoted], w2))))"

section \<open>The progress stream: \<open>createEventStream\<close>\<close>

text \<open>
  The response the stream writes to is Express's \<open>Response\<close> (Node's
  \<open>http.ServerResponse\<close>), which is not part of this repository. The model keeps what
  the stream uses of it: the status and headers set by \<open>writeHead\<close>, the chunks handed
  to \<open>write\<close> and accepted, the number of \<open>flush\<close> calls, whether \<open>end\<close> was called,
  and whether the response has a \<open>flush\<close> method at all (it has one only under the
  compression middleware). Node refuses a \<open>write\<close> after \<open>end\<close>: the chunk is not
  sent, so \<open>res_write\<close> leaves an ended response as it is.
\<close>

record response =
  head :: "(nat \<times> (string \<times> string) list) option"
  chunks :: "string list"
  flushes :: nat
  ended :: bool
  has_flush :: bool

definition res_writeHead :: "nat \<Rightarrow> (string \<times> string) list \<Rightarrow> response \<Rightarrow> response" where
  "res_writeHead status headers res = res\<lparr> head := Some (status, headers) \<rparr>"

definition res_write :: "string \<Rightarrow> response \<Rightarrow> response" where
  "res_write chunk res = (if ended res then res else res\<lparr> chunks := chunks res @ [chunk] \<rparr>)"

definition res_flush :: "response \<Rightarrow> response" where
  "res_flush res = res\<lparr> flushes := Suc (flushes res) \<rparr>"

definition res_end :: "response \<Rightarrow> response" where
  "res_end res = res\<lparr> ended := True \<rparr>"

text \<open>
  What the handlers are given: \<open>log\<close> a line of text, \<open>error\<close> an error, of which
  only the \<open>message\<close> is read, \<open>finish\<close> a result with its \<open>updated\<close> flag.
  \<open>JSON.stringify\<close> is a parameter of the model.
\<close>

record sync_result =
  updated :: bool

datatype json_value = JsonString string | JsonResult sync_result

record DocsSynchronizerSyncOpts =
  log :: "string \<Rightarrow> response \<Rightarrow> response"
  error :: "string \<Rightarrow> response \<Rightarrow> response"
  finish :: "sync_result \<Rightarrow> response \<Rightarrow> response"

text \<open>
  \<open>send\<close> and \<open>createEventStream\<close>. The three handlers close over the response; here
  they take its current state and return the new one.
\<close>

definition send :: "(json_value \<Rightarrow> string) \<Rightarrow> string \<Rightarrow> json_value \<Rightarrow> response \<Rightarrow> response" where
  "send JSON_stringify type data res =
     (let res1 = res_write (''event: '' @ type @ newline
                            @ ''data: '' @ JSON_stringify data @ newline @ newline) res
      in if has_flush res1 then res_flush res1 else res1)"

definition createEventStream ::
  "(json_value \<Rightarrow> string) \<Rightarrow> response \<Rightarrow> response \<times> DocsSynchronizerSyncOpts" where
  "createEventStream JSON_stringify res =
     (res_writeHead 200
        [(''Connection'', ''keep-alive''),
         (''Cache-Control'', ''no-cache''),
         (''Content-Type'', ''text/event-stream'')] res,
      \<lparr> log = (\<lambda>data. send JSON_stringify ''log'' (JsonString data)),
        error = (\<lambda>e_message r. res_end (send JSON_stringify ''error'' (JsonString e_message) r)),
        finish = (\<lambda>result r. res_end (send JSON_stringify ''finish'' (JsonResult result) r)) \<rparr>)"

text \<open>
  What can happen to a stream after its creation: a caller invokes one of the three
  handlers, or the client closes the connection, on which the registered listener ends
  the response.
\<close>

datatype stream_call =
    CallLog string
  | CallError string
  | CallFinish sync_result
  | SocketClose

fun call_handler :: "DocsSynchronizerSyncOpts \<Rightarrow> stream_call \<Rightarrow> response \<Rightarrow> response" where
  "call_handler opts (CallLog data) res = log opts data res"
| "call_handler opts (CallError e_message) res = error opts e_message res"
| "call_handler opts (CallFinish result) res = finish opts result res"
| "call_handler opts SocketClose res = res_end res"

fun run_calls :: "DocsSynchronizerSyncOpts \<Rightarrow> stream_call list \<Rightarrow> response \<Rightarrow> response" where
  "run_calls opts [] res = res"
| "run_calls opts (c # cs) res = run_calls opts cs (call_handler opts c res)"

section \<open>Example inputs\<close>

text \<open>
  A facade for concrete runs. Its remote repository is the list of existing branch
  names: \<open>createRef\<close> rejects with the provider's "Reference already exists" response
  when the target branch exists and records the branch otherwise; with an \<open>outage\<close>
  it rejects with that value instead. The other calls always resolve.
\<close>

definition stub_commit :: GhCommit where
  "stub_commit = \<lparr> commit_sha = ''4f2c9a1'',
       commit_html_url = ''https://ghe.example/org/repo/commit/4f2c9a1'',
       commit_message = ''Fix typo'' \<rparr>"

definition stubApiClient :: "js_error option \<Rightarrow> string list RMaaSApiClient" where
  "stubApiClient outage =
     \<lparr> getLatestCommit = (\<lambda>branch w. (Inr stub_commit, w)),
       createRef = (\<lambda>sha targetBranch w.
          case outage of
            Some e \<Rightarrow> (Inl e, w)
          | None \<Rightarrow>
              if targetBranch \<in> set w
              then (Inl (JsError ''Unprocessable Entity''
                           (BodyValue (Some ''Reference already exists''))), w)
              else (Inr \<lparr> ref = ''refs/heads/'' @ targetBranch \<rparr>, targetBranch # w)),
       getComparison = (\<lambda>base head w.
          (Inr \<lparr> comparison_html_url = ''https://ghe.example/org/repo/compare/'' @ base @ ''...'' @ head,
                 ahead_by = 12 \<rparr>, w)),
       createRelease = (\<lambda>info body w.
          (Inr \<lparr> release_name = releaseName info,
                 release_html_url = ''https://ghe.example/org/repo/releases/tag/'' @ rcReleaseTag info,
                 release_tag_name = rcReleaseTag info \<rparr>, w)) \<rparr>"

definition stub_info :: rc_ghe_info where
  "stub_info = \<lparr> rcBranch = ''rc/1.3.0'', rcReleaseTag = ''rc-1.3.0'', releaseName = ''Version 1.3.0'' \<rparr>"


text \<open>
  A \<open>JSON.stringify\<close> for the two shapes of data the stream sends (strings without
  characters that need escaping, and sync results), and a response nothing has been
  written to yet.
\<close>

definition stub_stringify :: "json_value \<Rightarrow> string" where
  "stub_stringify v =
     (case v of
        JsonString s \<Rightarrow> dquote @ s @ dquote
      | JsonResult r \<Rightarrow>
          ''{'' @ dquote @ ''updated'' @ dquote @ '':''
          @ (if updated r then ''true'' else ''false'') @ ''}'')"

definition fresh_response :: response where
  "fresh_response = \<lparr> head = None, chunks = [], flushes = 0, ended = False, has_flush = False \<rparr>"

section \<open>Properties of the naming resolver\<close>

text \<open>
  C4. For a calver project and an injected date \<open>d\<close> the resolver returns exactly the
  branch \<open>rc/d\<close>, the tag \<open>rc-d_0\<close> and the name \<open>Version d\<close>, whatever the latest
  release, the bump level, the helpers and the clock are.
\<close>

theorem getRcGheInfo_calver:
  "versioningStrategy project = calver \<Longrightarrow>
   getRcGheInfo parse bump today project latestRelease level (Some d) =
     Inr \<lparr> rcBranch = ''rc/'' @ d,
           rcReleaseTag = ''rc-'' @ d @ ''_0'',
           releaseName = ''Version '' @ d \<rparr>"
  by (simp add: getRcGheInfo_def)

theorem getRcGheInfo_calver_witness:
  "versioningStrategy \<lparr> github_org = ''erikengervall'', github_repo = ''playground-2'',
       project_name = ''ReleaseManagerAsAService (calver)'',
       versioningStrategy = calver \<rparr> = calver \<and>
   getRcGheInfo (\<lambda>t. Inl ()) (\<lambda>p l. p) ''1999.12.31''
       \<lparr> github_org = ''erikengervall'', github_repo = ''playground-2'',
         project_name = ''ReleaseManagerAsAService (calver)'',
         versioningStrategy = calver \<rparr>
       (Some \<lparr> tag_name = ''rc-2024.02.29_0'', target_commitish = ''rc/2024.02.29'',
               prerelease = True \<rparr>)
       bump_minor (Some ''2024.03.01'') =
     Inr \<lparr> rcBranch = ''rc/2024.03.01'',
           rcReleaseTag = ''rc-2024.03.01_0'',
           releaseName = ''Version 2024.03.01'' \<rparr>"
  using getRcGheInfo_calver
    [of "\<lparr> github_org = ''erikengervall'', github_repo = ''playground-2'',
            project_name = ''ReleaseManagerAsAService (calver)'',
            versioningStrategy = calver \<rparr>"
        "\<lambda>t. Inl ()" "\<lambda>p l. p" "''1999.12.31''"
        "Some \<lparr> tag_name = ''rc-2024.02.29_0'', target_commitish = ''rc/2024.02.29'',
                prerelease = True \<rparr>"
        bump_minor "''2024.03.01''"]
  by simp

text \<open>
  C6. For a semver project without a latest release the resolver returns exactly
  \<open>rc/0.0.1\<close>, \<open>rc-0.0.1\<close> and \<open>Version 0.0.1\<close>, whatever the bump level is.
\<close>

theorem getRcGheInfo_semver_first:
  "versioningStrategy project = semver \<Longrightarrow>
   getRcGheInfo parse bump today project None level injected =
     Inr \<lparr> rcBranch = ''rc/0.0.1'',
           rcReleaseTag = ''rc-0.0.1'',
           releaseName = ''Version 0.0.1'' \<rparr>"
  by (simp add: getRcGheInfo_def)

theorem getRcGheInfo_semver_first_witness:
  "versioningStrategy \<lparr> github_org = ''erikengervall'', github_repo = ''playground'',
       project_name = ''ReleaseManagerAsAService (semver)'',
       versioningStrategy = semver \<rparr> = semver \<and>
   getRcGheInfo (\<lambda>t. Inl ()) (\<lambda>p l. p) ''2021.03.15''
       \<lparr> github_org = ''erikengervall'', github_repo = ''playground'',
         project_name = ''ReleaseManagerAsAService (semver)'',
         versioningStrategy = semver \<rparr>
       None bump_major None =
     Inr \<lparr> rcBranch = ''rc/0.0.1'',
           rcReleaseTag = ''rc-0.0.1'',
           releaseName = ''Version 0.0.1'' \<rparr>"
  using getRcGheInfo_semver_first
    [of "\<lparr> github_org = ''erikengervall'', github_repo = ''playground'',
            project_name = ''ReleaseManagerAsAService (semver)'',
            versioningStrategy = semver \<rparr>"
        "\<lambda>t. Inl ()" "\<lambda>p l. p" "''2021.03.15''" bump_major None]
  by simp

text \<open>
  C5 (as amended). For a calver project the sequence component of the next
  release-candidate tag is always 0: the tag is \<open>rc-d_0\<close> whether or not a tag already
  exists for the date \<open>d\<close>, because the resolver never reads the latest release of a
  calver project. Here \<open>d\<close> is the injected date, or the current date when none is
  injected.
\<close>

theorem getRcGheInfo_calver_sequence_zero:
  "versioningStrategy project = calver \<Longrightarrow>
   map_sum id rcReleaseTag
       (getRcGheInfo parse bump today project latestRelease level injected) =
     Inr (''rc-'' @ (case injected of None \<Rightarrow> today | Some d \<Rightarrow> d)
          @ ''_'' @ string_of_nat 0)"
  by (simp add: getRcGheInfo_def Let_def string_of_nat.simps [of 0] digit_char_def)

theorem getRcGheInfo_calver_sequence_zero_witness:
  "versioningStrategy \<lparr> github_org = ''erikengervall'', github_repo = ''playground-2'',
       project_name = ''ReleaseManagerAsAService (calver)'',
       versioningStrategy = calver \<rparr> = calver \<and>
   map_sum id rcReleaseTag
       (getRcGheInfo (\<lambda>t. Inl ()) (\<lambda>p l. p) ''2024.03.02''
          \<lparr> github_org = ''erikengervall'', github_repo = ''playground-2'',
            project_name = ''ReleaseManagerAsAService (calver)'',
            versioningStrategy = calver \<rparr>
          (Some \<lparr> tag_name = ''rc-2024.03.01_3'', target_commitish = ''rc/2024.03.01'',
                  prerelease = True \<rparr>)
          bump_patch (Some ''2024.03.01'')) =
     Inr ''rc-2024.03.01_0'' \<and>
   map_sum id rcReleaseTag
       (getRcGheInfo (\<lambda>t. Inl ()) (\<lambda>p l. p) ''2024.03.02''
          \<lparr> github_org = ''erikengervall'', github_repo = ''playground-2'',
            project_name = ''ReleaseManagerAsAService (calver)'',
            versioningStrategy = calver \<rparr>
          (Some \<lparr> tag_name = ''rc-2024.03.02_0'', target_commitish = ''rc/2024.03.02'',
                  prerelease = True \<rparr>)
          bump_patch None) =
     Inr ''rc-2024.03.02_0''"
  using getRcGheInfo_calver_sequence_zero
    [of "\<lparr> github_org = ''erikengervall'', github_repo = ''playground-2'',
            project_name = ''ReleaseManagerAsAService (calver)'',
            versioningStrategy = calver \<rparr>"
        "\<lambda>t. Inl ()" "\<lambda>p l. p" "''2024.03.02''"
        "Some \<lparr> tag_name = ''rc-2024.03.01_3'', target_commitish = ''rc/2024.03.01'',
                prerelease = True \<rparr>"
        bump_patch "Some ''2024.03.01''"]
    getRcGheInfo_calver_sequence_zero
    [of "\<lparr> github_org = ''erikengervall'', github_repo = ''playground-2'',
            project_name = ''ReleaseManagerAsAService (calver)'',
            versioningStrategy = calver \<rparr>"
        "\<lambda>t. Inl ()" "\<lambda>p l. p" "''2024.03.02''"
        "Some \<lparr> tag_name = ''rc-2024.03.02_0'', target_commitish = ''rc/2024.03.02'',
                prerelease = True \<rparr>"
        bump_patch None]
  by (simp add: string_of_nat.simps [of 0] digit_char_def)

text \<open>
  C5 as stated fails: on the day \<open>2024.03.01\<close>, with the candidate \<open>rc-2024.03.01_0\<close>
  already released, the resolver computes the tag \<open>rc-2024.03.01_0\<close> again. The new
  tag is the existing one, so its sequence number 0 is not greater than the existing 0.
\<close>

theorem getRcGheInfo_calver_sequence_counterexample:
  "getRcGheInfo (\<lambda>t. Inl ()) (\<lambda>p l. p) ''2024.03.01''
       \<lparr> github_org = ''erikengervall'', github_repo = ''playground-2'',
         project_name = ''ReleaseManagerAsAService (calver)'',
         versioningStrategy = calver \<rparr>
       (Some \<lparr> tag_name = ''rc-2024.03.01_0'', target_commitish = ''rc/2024.03.01'',
               prerelease = True \<rparr>)
       bump_patch (Some ''2024.03.01'') =
     Inr \<lparr> rcBranch = ''rc/2024.03.01'',
           rcReleaseTag = tag_name \<lparr> tag_name = ''rc-2024.03.01_0'',
               target_commitish = ''rc/2024.03.01'', prerelease = True \<rparr>,
           releaseName = ''Version 2024.03.01'' \<rparr>"
  by (simp add: getRcGheInfo_def Let_def)

section \<open>Properties of the Create-RC orchestrator\<close>

text \<open>
  C1 (as amended). When \<open>createRef\<close> rejects with an error whose
  \<open>body.message\<close> is "Reference already exists", whatever the error's own
  \<open>message\<close> is, the run rejects with a \<open>ReleaseManagerAsAServiceError\<close> whose
  message names the candidate branch and ends in the path \<open>.../tree/<rcBranch>\<close>, a
  link with its host left out; the only calls performed are \<open>getLatestCommit\<close> and
  \<open>createRef\<close> (no \<open>getComparison\<close>, no \<open>createRelease\<close>, no callback), and the
  remote repository is as the failed \<open>createRef\<close> left it.
\<close>

theorem createGheRc_reference_exists:
  assumes "getLatestCommit apiClient defaultBranch w0 = (Inr latestCommit, w1)"
      and "createRef apiClient (commit_sha latestCommit) (rcBranch nextGheInfo) w1 =
             (Inl (JsError description (BodyValue (Some ''Reference already exists''))), w2)"
  shows "createGheRc apiClient defaultBranch latestRelease nextGheInfo successCb w0 =
     (Inl (ReleaseManagerAsAServiceError
             (''Branch '' @ dquote @ rcBranch nextGheInfo @ dquote
              @ '' already exists: .../tree/'' @ rcBranch nextGheInfo)),
      [GetLatestCommit defaultBranch,
       CreateRef (commit_sha latestCommit) (rcBranch nextGheInfo)],
      w2)"
  using assms by (simp add: createGheRc_def createRef_catch_def)

theorem createGheRc_reference_exists_witness:
  "createGheRc (stubApiClient None) ''master'' None stub_info None [''rc/1.3.0''] =
     (Inl (ReleaseManagerAsAServiceError
             (''Branch '' @ dquote @ ''rc/1.3.0'' @ dquote @ '' already exists: .../tree/rc/1.3.0'')),
      [GetLatestCommit ''master'', CreateRef ''4f2c9a1'' ''rc/1.3.0''],
      [''rc/1.3.0''])"
  using createGheRc_reference_exists
    [of "stubApiClient None" "''master''" "[''rc/1.3.0'']" stub_commit "[''rc/1.3.0'']"
        stub_info "''Unprocessable Entity''" "[''rc/1.3.0'']" None None]
  by (simp add: stubApiClient_def stub_commit_def stub_info_def)

text \<open>
  C1 as stated fails: when \<open>createRef\<close> rejects with an error whose own \<open>message\<close>
  is "Reference already exists" and which has no \<open>body\<close>, the run does not reject with
  the conflict error that names the branch; the condition of the \<open>catch\<close> block is
  on \<open>error.body.message\<close>.
\<close>

theorem createGheRc_reference_exists_counterexample:
  "fst (createGheRc
          (stubApiClient (Some (JsError ''Reference already exists'' BodyUndefined)))
          ''master'' None stub_info None [''rc/1.3.0'']) \<noteq>
     Inl (ReleaseManagerAsAServiceError
            (''Branch '' @ dquote @ ''rc/1.3.0'' @ dquote
             @ '' already exists: .../tree/rc/1.3.0'')) \<and>
   createGheRc
       (stubApiClient (Some (JsError ''Reference already exists'' BodyUndefined)))
       ''master'' None stub_info None [''rc/1.3.0''] =
     (Inl TypeError, [GetLatestCommit ''master'', CreateRef ''4f2c9a1'' ''rc/1.3.0''],
      [''rc/1.3.0''])"
  by (simp add: createGheRc_def createRef_catch_def stubApiClient_def stub_commit_def
        stub_info_def Let_def)

text \<open>
  C2. When the four facade calls resolve, the response steps are exactly four, in the
  order latest commit, created ref, comparison, created release. Without a callback the
  run resolves with them after exactly the four facade calls. With a callback, it is
  called exactly once, after the four facade calls, with the created release's URL, name
  and tag, the comparison URL and the previous tag if there is one; the run then
  resolves with the four steps, unless the callback itself rejects.
\<close>

theorem createGheRc_success:
  assumes "getLatestCommit apiClient defaultBranch w0 = (Inr latestCommit, w1)"
      and "createRef apiClient (commit_sha latestCommit) (rcBranch nextGheInfo) w1 =
             (Inr createdRef, w2)"
      and "getComparison apiClient
             (case latestRelease of Some latest \<Rightarrow> target_commitish latest
                                  | None \<Rightarrow> defaultBranch)
             (rcBranch nextGheInfo) w2 = (Inr comparison, w3)"
      and "createRelease apiClient nextGheInfo (releaseBody_of comparison createdRef) w3 =
             (Inr created, w4)"
  shows "let previous = (case latestRelease of Some latest \<Rightarrow> target_commitish latest
                                             | None \<Rightarrow> defaultBranch);
             steps =
               [\<lparr> message = ''Fetched latest commit from '' @ dquote @ defaultBranch @ dquote,
                  secondaryMessage =
                    Some (''with message '' @ dquote @ commit_message latestCommit @ dquote),
                  link = Some (commit_html_url latestCommit), icon = None \<rparr>,
                \<lparr> message = ''Cut Release Branch'',
                  secondaryMessage = Some (''with ref '' @ dquote @ ref createdRef @ dquote),
                  link = None, icon = None \<rparr>,
                \<lparr> message = ''Fetched commit comparision'',
                  secondaryMessage = Some (previous @ ''...'' @ rcBranch nextGheInfo),
                  link = Some (comparison_html_url comparison), icon = None \<rparr>,
                \<lparr> message = ''Created Release Candidate '' @ dquote
                    @ release_name created @ dquote,
                  secondaryMessage =
                    Some (''with tag '' @ dquote @ rcReleaseTag nextGheInfo @ dquote),
                  link = Some (release_html_url created), icon = None \<rparr>];
             facade_calls =
               [GetLatestCommit defaultBranch,
                CreateRef (commit_sha latestCommit) (rcBranch nextGheInfo),
                GetComparison previous (rcBranch nextGheInfo),
                CreateRelease nextGheInfo (releaseBody_of comparison createdRef)];
             payload =
               \<lparr> gitHubReleaseUrl = release_html_url created,
                 gitHubReleaseName = release_name created,
                 comparisonUrl = comparison_html_url comparison,
                 previousTag = map_option tag_name latestRelease,
                 createdTag = release_tag_name created \<rparr>
         in length steps = 4 \<and>
            (case successCb of
               None \<Rightarrow>
                 createGheRc apiClient defaultBranch latestRelease nextGheInfo successCb w0 =
                   (Inr steps, facade_calls, w4)
             | Some cb \<Rightarrow>
                 createGheRc apiClient defaultBranch latestRelease nextGheInfo successCb w0 =
                   ((case fst (cb payload w4) of
                       Inl e \<Rightarrow> Inl (Rethrown e)
                     | Inr u \<Rightarrow> Inr steps),
                    facade_calls @ [SuccessCb payload],
                    snd (cb payload w4)))"
  using assms
  by (simp add: createGheRc_def Let_def split: option.split sum.split prod.split)

theorem createGheRc_success_witness:
  "createGheRc (stubApiClient None) ''master''
       (Some \<lparr> tag_name = ''rc-1.2.0'', target_commitish = ''rc/1.2.0'', prerelease = True \<rparr>)
       stub_info (Some (\<lambda>payload w. (Inr (), w))) [''rc/1.2.0''] =
     (Inr [\<lparr> message = ''Fetched latest commit from '' @ dquote @ ''master'' @ dquote,
              secondaryMessage = Some (''with message '' @ dquote @ ''Fix typo'' @ dquote),
              link = Some ''https://ghe.example/org/repo/commit/4f2c9a1'', icon = None \<rparr>,
            \<lparr> message = ''Cut Release Branch'',
              secondaryMessage = Some (''with ref '' @ dquote @ ''refs/heads/rc/1.3.0'' @ dquote),
              link = None, icon = None \<rparr>,
            \<lparr> message = ''Fetched commit comparision'',
              secondaryMessage = Some ''rc/1.2.0...rc/1.3.0'',
              link = Some ''https://ghe.example/org/repo/compare/rc/1.2.0...rc/1.3.0'',
              icon = None \<rparr>,
            \<lparr> message = ''Created Release Candidate '' @ dquote @ ''Version 1.3.0'' @ dquote,
              secondaryMessage = Some (''with tag '' @ dquote @ ''rc-1.3.0'' @ dquote),
              link = Some ''https://ghe.example/org/repo/releases/tag/rc-1.3.0'',
              icon = None \<rparr>],
      [GetLatestCommit ''master'',
       CreateRef ''4f2c9a1'' ''rc/1.3.0'',
       GetComparison ''rc/1.2.0'' ''rc/1.3.0'',
       CreateRelease stub_info
         (''**Compare** https://ghe.example/org/repo/compare/rc/1.2.0...rc/1.3.0''
          @ newline @ newline @ ''**Ahead by** 12 commits'' @ newline @ newline
          @ ''**Release branch** refs/heads/rc/1.3.0'' @ newline @ newline
          @ ''---'' @ newline @ newline),
       SuccessCb \<lparr> gitHubReleaseUrl = ''https://ghe.example/org/repo/releases/tag/rc-1.3.0'',
                   gitHubReleaseName = ''Version 1.3.0'',
                   comparisonUrl = ''https://ghe.example/org/repo/compare/rc/1.2.0...rc/1.3.0'',
                   previousTag = Some ''rc-1.2.0'',
                   createdTag = ''rc-1.3.0'' \<rparr>],
      [''rc/1.3.0'', ''rc/1.2.0''])"
  using createGheRc_success
    [of "stubApiClient None" "''master''" "[''rc/1.2.0'']" stub_commit "[''rc/1.2.0'']"
        stub_info "\<lparr> ref = ''refs/heads/rc/1.3.0'' \<rparr>" "[''rc/1.3.0'', ''rc/1.2.0'']"
        "Some \<lparr> tag_name = ''rc-1.2.0'', target_commitish = ''rc/1.2.0'', prerelease = True \<rparr>"
        "\<lparr> comparison_html_url = ''https://ghe.example/org/repo/compare/rc/1.2.0...rc/1.3.0'',
           ahead_by = 12 \<rparr>"
        "[''rc/1.3.0'', ''rc/1.2.0'']"
        "\<lparr> release_name = ''Version 1.3.0'',
           release_html_url = ''https://ghe.example/org/repo/releases/tag/rc-1.3.0'',
           release_tag_name = ''rc-1.3.0'' \<rparr>"
        "[''rc/1.3.0'', ''rc/1.2.0'']"
        "Some (\<lambda>payload w. (Inr (), w))"]
  by (simp add: stubApiClient_def stub_commit_def stub_info_def releaseBody_of_def Let_def
        string_of_nat.simps [of 12] string_of_nat.simps [of "Suc 0"] digit_char_def)


text \<open>
  C3 fails on the code where \<open>createRef\<close> rejects with an error that has no \<open>body\<close>,
  such as a plain network failure: the \<open>catch\<close> block reads \<open>error.body.message\<close>
  before it reaches \<open>throw error\<close>, so the caller sees a \<open>TypeError\<close> and not the
  original error.
\<close>

theorem createGheRc_plain_error_not_propagated:
  "createGheRc (stubApiClient (Some (JsError ''socket hang up'' BodyUndefined)))
       ''master'' None stub_info None [] =
     (Inl TypeError, [GetLatestCommit ''master'', CreateRef ''4f2c9a1'' ''rc/1.3.0''], []) \<and>
   fst (createGheRc (stubApiClient (Some (JsError ''socket hang up'' BodyUndefined)))
       ''master'' None stub_info None []) \<noteq>
     Inl (Rethrown (JsError ''socket hang up'' BodyUndefined))"
  by (simp add: createGheRc_def createRef_catch_def stubApiClient_def stub_commit_def
        stub_info_def Let_def)

text \<open>
  C9. When \<open>createRef\<close> rejects with an error that has no \<open>body\<close> property, the run
  rejects with a \<open>TypeError\<close>, not with the original error; and whenever the run
  rethrows a value caught from \<open>createRef\<close>, that value is the caught error itself, it
  carries a body, and the body's message is not "Reference already exists".
\<close>

theorem createGheRc_error_without_body:
  assumes "getLatestCommit apiClient defaultBranch w0 = (Inr latestCommit, w1)"
      and "createRef apiClient (commit_sha latestCommit) (rcBranch nextGheInfo) w1 =
             (Inl err, w2)"
  shows "((\<exists>description. err = JsError description BodyUndefined) \<longrightarrow>
            fst (createGheRc apiClient defaultBranch latestRelease nextGheInfo successCb w0) =
              Inl TypeError) \<and>
         (\<forall>e. fst (createGheRc apiClient defaultBranch latestRelease nextGheInfo successCb w0) =
                Inl (Rethrown e) \<longrightarrow>
              e = err \<and>
              (\<exists>description body_message.
                  err = JsError description (BodyValue body_message) \<and>
                  body_message \<noteq> Some ''Reference already exists''))"
  using assms
  by (auto simp add: createGheRc_def createRef_catch_def Let_def
        split: js_error.splits js_body.splits if_splits)

theorem createGheRc_error_without_body_witness:
  "fst (createGheRc (stubApiClient (Some (JsError ''Network request failed'' BodyUndefined)))
          ''master'' None stub_info None []) = Inl TypeError \<and>
   fst (createGheRc
          (stubApiClient (Some (JsError ''Bad credentials''
                                  (BodyValue (Some ''Bad credentials'')))))
          ''master'' None stub_info None []) =
     Inl (Rethrown (JsError ''Bad credentials'' (BodyValue (Some ''Bad credentials''))))"
proof
  show "fst (createGheRc (stubApiClient (Some (JsError ''Network request failed'' BodyUndefined)))
          ''master'' None stub_info None []) = Inl TypeError"
    using createGheRc_error_without_body
      [of "stubApiClient (Some (JsError ''Network request failed'' BodyUndefined))"
          "''master''" "[]" stub_commit "[]" stub_info
          "JsError ''Network request failed'' BodyUndefined" "[]" None None]
    by (simp add: stubApiClient_def stub_commit_def stub_info_def)
  show "fst (createGheRc
          (stubApiClient (Some (JsError ''Bad credentials''
                                  (BodyValue (Some ''Bad credentials'')))))
          ''master'' None stub_info None []) =
     Inl (Rethrown (JsError ''Bad credentials'' (BodyValue (Some ''Bad credentials''))))"
    by (simp add: createGheRc_def createRef_catch_def stubApiClient_def stub_commit_def
          stub_info_def Let_def)
qed

text \<open>
  C10. Once the latest commit is fetched and the ref created, the third call is the
  comparison of the previous release branch with the candidate branch, where the
  previous release branch is the latest release's \<open>target_commitish\<close>, or the default
  branch when there is no latest release. When the comparison resolves, the fourth call
  creates the release with a body that embeds the comparison's URL, its ahead-by count
  and the created ref.
\<close>

theorem createGheRc_comparison_base:
  assumes "getLatestCommit apiClient defaultBranch w0 = (Inr latestCommit, w1)"
      and "createRef apiClient (commit_sha latestCommit) (rcBranch nextGheInfo) w1 =
             (Inr createdRef, w2)"
  shows "take 3 (fst (snd (createGheRc apiClient defaultBranch latestRelease nextGheInfo
                             successCb w0))) =
           [GetLatestCommit defaultBranch,
            CreateRef (commit_sha latestCommit) (rcBranch nextGheInfo),
            GetComparison
              (case latestRelease of None \<Rightarrow> defaultBranch
                                   | Some latest \<Rightarrow> target_commitish latest)
              (rcBranch nextGheInfo)] \<and>
         (\<forall>comparison w3.
            getComparison apiClient
              (case latestRelease of None \<Rightarrow> defaultBranch
                                   | Some latest \<Rightarrow> target_commitish latest)
              (rcBranch nextGheInfo) w2 = (Inr comparison, w3) \<longrightarrow>
            drop 3 (take 4 (fst (snd (createGheRc apiClient defaultBranch latestRelease
                                        nextGheInfo successCb w0)))) =
              [CreateRelease nextGheInfo
                 (''**Compare** '' @ comparison_html_url comparison @ newline @ newline
                  @ ''**Ahead by** '' @ string_of_nat (ahead_by comparison) @ '' commits''
                  @ newline @ newline
                  @ ''**Release branch** '' @ ref createdRef @ newline @ newline
                  @ ''---'' @ newline @ newline)])"
proof -
  let ?base = "case latestRelease of None \<Rightarrow> defaultBranch
                 | Some latest \<Rightarrow> target_commitish latest"
  let ?run = "createGheRc apiClient defaultBranch latestRelease nextGheInfo successCb w0"
  let ?c3 = "[GetLatestCommit defaultBranch,
              CreateRef (commit_sha latestCommit) (rcBranch nextGheInfo),
              GetComparison ?base (rcBranch nextGheInfo)]"
  obtain r3 w3 where gc: "getComparison apiClient ?base (rcBranch nextGheInfo) w2 = (r3, w3)"
    by (cases "getComparison apiClient ?base (rcBranch nextGheInfo) w2")
  show ?thesis
  proof (cases r3)
    case (Inl e)
    have "?run = (Inl (Rethrown e), ?c3, w3)"
      using assms gc Inl by (simp add: createGheRc_def)
    then show ?thesis using gc Inl by simp
  next
    case (Inr comparison)
    obtain r4 w4 where rel:
      "createRelease apiClient nextGheInfo (releaseBody_of comparison createdRef) w3 = (r4, w4)"
      by (cases "createRelease apiClient nextGheInfo (releaseBody_of comparison createdRef) w3")
    have "\<exists>rest. fst (snd ?run) =
            ?c3 @ CreateRelease nextGheInfo (releaseBody_of comparison createdRef) # rest"
      using assms gc Inr rel
      by (cases r4; cases successCb)
         (simp_all add: createGheRc_def Let_def split: prod.split sum.split)
    then obtain rest where calls:
      "fst (snd ?run) =
         ?c3 @ CreateRelease nextGheInfo (releaseBody_of comparison createdRef) # rest"
      by blast
    show ?thesis
      unfolding calls using gc Inr by (simp add: releaseBody_of_def)
  qed
qed

theorem createGheRc_comparison_base_witness:
  "take 4 (fst (snd (createGheRc (stubApiClient None) ''master'' None stub_info None []))) =
     [GetLatestCommit ''master'',
      CreateRef ''4f2c9a1'' ''rc/1.3.0'',
      GetComparison ''master'' ''rc/1.3.0'',
      CreateRelease stub_info
        (''**Compare** https://ghe.example/org/repo/compare/master...rc/1.3.0''
         @ newline @ newline @ ''**Ahead by** 12 commits'' @ newline @ newline
         @ ''**Release branch** refs/heads/rc/1.3.0'' @ newline @ newline
         @ ''---'' @ newline @ newline)]"
proof -
  have glc: "getLatestCommit (stubApiClient None) ''master'' [] = (Inr stub_commit, [])"
    by (simp add: stubApiClient_def)
  have cr: "createRef (stubApiClient None) (commit_sha stub_commit) (rcBranch stub_info) [] =
              (Inr \<lparr> ref = ''refs/heads/rc/1.3.0'' \<rparr>, [''rc/1.3.0''])"
    by (simp add: stubApiClient_def stub_info_def)
  have cmp: "getComparison (stubApiClient None)
               (case None :: GhGetReleaseResponse option of None \<Rightarrow> ''master''
                  | Some latest \<Rightarrow> target_commitish latest)
               (rcBranch stub_info) [''rc/1.3.0''] =
             (Inr \<lparr> comparison_html_url =
                      ''https://ghe.example/org/repo/compare/master...rc/1.3.0'',
                    ahead_by = 12 \<rparr>, [''rc/1.3.0''])"
    by (simp add: stubApiClient_def stub_info_def)
  note base = createGheRc_comparison_base [OF glc cr, of None None]
  from base have first: "take 3 (fst (snd (createGheRc (stubApiClient None) ''master'' None
                             stub_info None []))) =
      [GetLatestCommit ''master'', CreateRef ''4f2c9a1'' ''rc/1.3.0'',
       GetComparison ''master'' ''rc/1.3.0'']"
    by (simp add: stub_commit_def stub_info_def)
  from base cmp have fourth: "drop 3 (take 4 (fst (snd (createGheRc (stubApiClient None)
                             ''master'' None stub_info None [])))) =
      [CreateRelease stub_info
        (''**Compare** https://ghe.example/org/repo/compare/master...rc/1.3.0''
         @ newline @ newline @ ''**Ahead by** 12 commits'' @ newline @ newline
         @ ''**Release branch** refs/heads/rc/1.3.0'' @ newline @ newline
         @ ''---'' @ newline @ newline)]"
    by (simp add: string_of_nat.simps [of 12] string_of_nat.simps [of "Suc 0"] digit_char_def)
  have "take 4 (fst (snd (createGheRc (stubApiClient None) ''master'' None stub_info None []))) =
        take 3 (take 4 (fst (snd (createGheRc (stubApiClient None) ''master'' None stub_info
                                    None [])))) @
        drop 3 (take 4 (fst (snd (createGheRc (stubApiClient None) ''master'' None stub_info
                                    None []))))"
    by (simp only: append_take_drop_id)
  with first fourth show ?thesis by simp
qed

section \<open>Properties of the Promote-RC workflow\<close>

text \<open>
  C7. Without a latest release the Promote-RC workflow performs no facade call, leaves
  the remote repository untouched and signals that there is nothing to promote.
\<close>

theorem promoteRc_nothing_to_promote:
  "promoteRc facade None confirmed merge w0 = (Inl NothingToPromote, [], w0)"
  by (simp add: promoteRc_def)

section \<open>Properties of the progress stream\<close>

text \<open>
  Once the response has ended, no handler call and no socket close changes what has
  been written, and the response stays ended.
\<close>

lemma ended_stays:
  "ended res \<Longrightarrow>
   ended (call_handler (snd (createEventStream js res0)) c res) \<and>
   chunks (call_handler (snd (createEventStream js res0)) c res) = chunks res"
  by (cases c)
     (simp_all add: createEventStream_def send_def res_write_def res_flush_def res_end_def Let_def)

lemma run_calls_ended:
  "ended res \<Longrightarrow>
   ended (run_calls (snd (createEventStream js res0)) cs res) \<and>
   chunks (run_calls (snd (createEventStream js res0)) cs res) = chunks res"
proof (induction cs arbitrary: res)
  case Nil
  then show ?case by simp
next
  case (Cons c cs)
  from ended_stays [OF Cons.prems, of js res0 c]
  have e: "ended (call_handler (snd (createEventStream js res0)) c res)"
    and k: "chunks (call_handler (snd (createEventStream js res0)) c res) = chunks res"
    by simp_all
  from Cons.IH [OF e] k show ?case by simp
qed

lemma run_calls_append:
  "run_calls opts (xs @ ys) res = run_calls opts ys (run_calls opts xs res)"
  by (induction xs arbitrary: res) simp_all

text \<open>
  C8. A \<open>log\<close> call leaves the stream as open or closed as it was, while \<open>error\<close>
  and \<open>finish\<close> always end the response. On an open stream \<open>error\<close> writes one
  \<open>error\<close> event carrying the message and \<open>finish\<close> one \<open>finish\<close> event carrying the
  result with its \<open>updated\<close> flag. After an \<open>error\<close> or \<open>finish\<close> call, whatever calls
  follow, nothing more is written to the response.
\<close>

theorem createEventStream_terminal_events:
  "ended (log (snd (createEventStream JSON_stringify res0)) data res) = ended res \<and>
   ended (error (snd (createEventStream JSON_stringify res0)) e_message res) \<and>
   ended (finish (snd (createEventStream JSON_stringify res0)) result res) \<and>
   (\<not> ended res \<longrightarrow>
      chunks (error (snd (createEventStream JSON_stringify res0)) e_message res) =
        chunks res @ [''event: error'' @ newline
                      @ ''data: '' @ JSON_stringify (JsonString e_message) @ newline @ newline] \<and>
      chunks (finish (snd (createEventStream JSON_stringify res0)) result res) =
        chunks res @ [''event: finish'' @ newline
                      @ ''data: '' @ JSON_stringify (JsonResult result) @ newline @ newline]) \<and>
   (terminal = CallError e_message \<or> terminal = CallFinish result \<longrightarrow>
      ended (run_calls (snd (createEventStream JSON_stringify res0))
               (before @ terminal # after) res) \<and>
      chunks (run_calls (snd (createEventStream JSON_stringify res0))
                (before @ terminal # after) res) =
        chunks (run_calls (snd (createEventStream JSON_stringify res0))
                  (before @ [terminal]) res))"
proof -
  let ?opts = "snd (createEventStream JSON_stringify res0)"
  have log_open: "ended (log ?opts data res) = ended res"
    by (simp add: createEventStream_def send_def res_write_def res_flush_def Let_def)
  have closes: "ended (error ?opts e_message r) \<and> ended (finish ?opts result r)" for r
    by (simp add: createEventStream_def res_end_def)
  have written: "\<not> ended res \<longrightarrow>
      chunks (error ?opts e_message res) =
        chunks res @ [''event: error'' @ newline
                      @ ''data: '' @ JSON_stringify (JsonString e_message) @ newline @ newline] \<and>
      chunks (finish ?opts result res) =
        chunks res @ [''event: finish'' @ newline
                      @ ''data: '' @ JSON_stringify (JsonResult result) @ newline @ newline]"
    by (simp add: createEventStream_def send_def res_write_def res_flush_def res_end_def Let_def)
  have after_terminal:
    "ended (run_calls ?opts (before @ terminal # after) res) \<and>
     chunks (run_calls ?opts (before @ terminal # after) res) =
       chunks (run_calls ?opts (before @ [terminal]) res)"
    if t: "terminal = CallError e_message \<or> terminal = CallFinish result"
  proof -
    from t closes [of "run_calls ?opts before res"]
    have "ended (call_handler ?opts terminal (run_calls ?opts before res))"
      by auto
    from run_calls_ended [OF this, where cs = after]
    show ?thesis by (simp add: run_calls_append)
  qed
  from log_open closes [of res] written after_terminal show ?thesis by blast
qed

theorem createEventStream_terminal_events_witness:
  "chunks (run_calls (snd (createEventStream stub_stringify fresh_response))
             ([CallLog ''Step 1 of 3''] @ CallFinish \<lparr> updated = True \<rparr>
                # [CallLog ''late line'', CallError ''late failure''])
             (fst (createEventStream stub_stringify fresh_response))) =
     [''event: log'' @ newline @ ''data: '' @ dquote @ ''Step 1 of 3'' @ dquote
        @ newline @ newline,
      ''event: finish'' @ newline @ ''data: {'' @ dquote @ ''updated'' @ dquote @ '':true}''
        @ newline @ newline]"
  using createEventStream_terminal_events
    [of stub_stringify fresh_response "[]"
        "fst (createEventStream stub_stringify fresh_response)" "[]"
        "\<lparr> updated = True \<rparr>" "CallFinish \<lparr> updated = True \<rparr>"
        "[CallLog ''Step 1 of 3'']" "[CallLog ''late line'', CallError ''late failure'']"]
  by (simp add: createEventStream_def send_def res_write_def res_flush_def res_end_def
        res_writeHead_def stub_stringify_def fresh_response_def Let_def)

end
